theory Spec2Isabelle
  imports Complex_Main
begin

section \<open>Exceptions\<close>

text \<open>
  Every exception the modelled code can raise is a value.  \<open>DivisionByZero\<close>,
  \<open>InvalidOperation\<close> and \<open>Overflow\<close> are the three signals that Python's default
  decimal context traps; \<open>ZeroDivisionError\<close>, \<open>OverflowError\<close> and \<open>ValueError\<close> are
  the built-in exceptions of integer and float arithmetic and of parsing.
  \<open>NonFinite\<close> is not a Python exception: it marks the point where a \<open>Decimal\<close> NaN
  or Infinity would be produced, which this development does not follow further.
\<close>

datatype error =
    InvalidOperation
  | DivisionByZero
  | Overflow
  | ZeroDivisionError
  | OverflowError
  | ValueError string
  | NonFinite

definition bind_e :: "error + 'a \<Rightarrow> ('a \<Rightarrow> error + 'b) \<Rightarrow> error + 'b" where
  "bind_e m f = (case m of Inl e \<Rightarrow> Inl e | Inr x \<Rightarrow> f x)"

section \<open>Python's \<open>Decimal\<close> under the default context\<close>

text \<open>
  A finite \<open>Decimal\<close> is a signed coefficient and an exponent; its value is
  \<open>coefficient * 10 ^ exponent\<close>.  The sign of a zero is not kept (Python compares
  \<open>-0\<close> and \<open>0\<close> equal), and the special values NaN and Infinity are not members of
  the type.  The context is the default one: precision 28, rounding
  \<open>ROUND_HALF_EVEN\<close>, \<open>Emax = 999999\<close>, \<open>Emin = -999999\<close>, \<open>clamp = 0\<close>, traps on
  \<open>InvalidOperation\<close>, \<open>DivisionByZero\<close> and \<open>Overflow\<close>.
\<close>

datatype decimal = Decimal (coefficient: int) (exponent: int)

definition prec :: int where "prec = 28"
definition Emax :: int where "Emax = 999999"
definition Emin :: int where "Emin = - 999999"
definition Etiny :: int where "Etiny = Emin - prec + 1"
definition Etop :: int where "Etop = Emax - prec + 1"

text \<open>
  \<open>len(self._int)\<close>: the number of decimal digits of a coefficient (\<open>0\<close> has one),
  found as the first \<open>k\<close> with \<open>n < 10 ^ k\<close>.
\<close>

function digits_loop :: "int \<Rightarrow> int \<Rightarrow> int \<Rightarrow> int" where
  "digits_loop p k n = (if n < p \<or> p \<le> 0 then k else digits_loop (10 * p) (k + 1) n)"
  by pat_completeness auto
termination
  by (relation "measure (\<lambda>(p, k, n). nat (n - p + 1))") auto

declare digits_loop.simps [simp del]

definition ndigits :: "int \<Rightarrow> int" where
  "ndigits n = digits_loop 10 1 n"

definition dec_val :: "decimal \<Rightarrow> rat" where
  "dec_val d =
     (if 0 \<le> exponent d then of_int (coefficient d) * 10 ^ nat (exponent d)
      else of_int (coefficient d) / 10 ^ nat (- exponent d))"

text \<open>
  Dropping the last \<open>k\<close> digits of a non-negative coefficient \<open>c\<close>: round half to even
  (the context's rounding) and round half up (the rounding \<open>_round_currency\<close> asks for).
\<close>

definition round_half_even :: "int \<Rightarrow> nat \<Rightarrow> int" where
  "round_half_even c k =
     (let q = c div 10 ^ k; r = c mod 10 ^ k
      in if 10 ^ k < 2 * r \<or> (2 * r = 10 ^ k \<and> odd q) then q + 1 else q)"

definition round_half_up :: "int \<Rightarrow> nat \<Rightarrow> int" where
  "round_half_up c k =
     (let q = c div 10 ^ k; r = c mod 10 ^ k
      in if 10 ^ k \<le> 2 * r then q + 1 else q)"

definition with_sign :: "int \<Rightarrow> int \<Rightarrow> int" where
  "with_sign c m = (if c < 0 then - m else m)"

text \<open>
  \<open>Decimal._fix\<close>: bring an exact intermediate result into the context.  A zero has
  its exponent clamped; a coefficient of more than \<open>prec\<close> digits, or one below the
  subnormal exponent \<open>Etiny\<close>, is rounded; an adjusted exponent above \<open>Emax\<close> raises
  \<open>Overflow\<close>.
\<close>

definition dec_fix :: "decimal \<Rightarrow> error + decimal" where
  "dec_fix d =
     (let c = coefficient d; e = exponent d
      in if c = 0 then Inr (Decimal 0 (min (max e Etiny) Emax))
         else
           let exp_min0 = ndigits \<bar>c\<bar> + e - prec
           in if Etop < exp_min0 then Inl Overflow
              else
                let exp_min = max exp_min0 Etiny
                in if e < exp_min then
                     let m = round_half_even \<bar>c\<bar> (nat (exp_min - e))
                     in if prec < ndigits m then
                          (if Etop < exp_min + 1 then Inl Overflow
                           else Inr (Decimal (with_sign c (m div 10)) (exp_min + 1)))
                        else Inr (Decimal (with_sign c m) exp_min)
                   else Inr d)"

text \<open>\<open>Decimal.__add__\<close> and \<open>Decimal.__mul__\<close>: the exact result, then \<open>_fix\<close>.\<close>

definition dec_add :: "decimal \<Rightarrow> decimal \<Rightarrow> error + decimal" where
  "dec_add a b =
     (let e = min (exponent a) (exponent b)
      in dec_fix (Decimal (coefficient a * 10 ^ nat (exponent a - e)
                       + coefficient b * 10 ^ nat (exponent b - e)) e))"

definition dec_mul :: "decimal \<Rightarrow> decimal \<Rightarrow> error + decimal" where
  "dec_mul a b = dec_fix (Decimal (coefficient a * coefficient b) (exponent a + exponent b))"

text \<open>
  \<open>Decimal.__truediv__\<close>.  The quotient is computed to \<open>prec + 1\<close> or \<open>prec + 2\<close>
  digits; if the division is inexact a last digit \<open>0\<close> or \<open>5\<close> is bumped so that
  \<open>_fix\<close> rounds correctly, and if it is exact trailing zeros are removed while the
  exponent is below the ideal one.
\<close>

function strip_zeros :: "int \<Rightarrow> int \<Rightarrow> int \<Rightarrow> int \<times> int" where
  "strip_zeros ideal_exp coeff ex =
     (if ex < ideal_exp \<and> coeff mod 10 = 0
      then strip_zeros ideal_exp (coeff div 10) (ex + 1)
      else (coeff, ex))"
  by pat_completeness auto
termination
  by (relation "measure (\<lambda>(ideal_exp, coeff, ex). nat (ideal_exp - ex))") auto

declare strip_zeros.simps [simp del]

definition dec_div :: "decimal \<Rightarrow> decimal \<Rightarrow> error + decimal" where
  "dec_div a b =
     (let ca = \<bar>coefficient a\<bar>; cb = \<bar>coefficient b\<bar>;
          sgn_c = coefficient a * coefficient b
      in if cb = 0 then (if ca = 0 then Inl InvalidOperation else Inl DivisionByZero)
         else if ca = 0 then dec_fix (Decimal 0 (exponent a - exponent b))
         else
           let shift = ndigits cb - ndigits ca + prec + 1;
               ex = exponent a - exponent b - shift;
               num = (if 0 \<le> shift then ca * 10 ^ nat shift else ca);
               den = (if 0 \<le> shift then cb else cb * 10 ^ nat (- shift));
               coeff = num div den;
               remainder = num mod den
           in if remainder \<noteq> 0 then
                dec_fix (Decimal (with_sign sgn_c (if coeff mod 5 = 0 then coeff + 1 else coeff)) ex)
              else
                (case strip_zeros (exponent a - exponent b) coeff ex of
                   (coeff', ex') \<Rightarrow> dec_fix (Decimal (with_sign sgn_c coeff') ex')))"

text \<open>\<open>Decimal(n)\<close> for an \<open>int\<close>, as the arithmetic operators convert an \<open>int\<close> operand.\<close>

definition dec_of_int :: "int \<Rightarrow> decimal" where
  "dec_of_int n = Decimal n 0"

text \<open>
  \<open>value.quantize(Decimal("0.01"), rounding=ROUND_HALF_UP)\<close>, the body of
  \<open>_round_currency\<close>.  The result has exponent \<open>-2\<close>; a result of more than \<open>prec\<close>
  digits raises \<open>InvalidOperation\<close>.
\<close>

definition quantize_half_up :: "decimal \<Rightarrow> int \<Rightarrow> error + decimal" where
  "quantize_half_up d ex =
     (let c = coefficient d; e = exponent d
      in if \<not> (Etiny \<le> ex \<and> ex \<le> Emax) then Inl InvalidOperation
         else if c = 0 then dec_fix (Decimal 0 ex)
         else
           let adjusted = ndigits \<bar>c\<bar> + e - 1
           in if Emax < adjusted then Inl InvalidOperation
              else if prec < adjusted - ex + 1 then Inl InvalidOperation
              else
                let m = (if ex \<le> e then \<bar>c\<bar> * 10 ^ nat (e - ex)
                         else round_half_up \<bar>c\<bar> (nat (ex - e)))
                in if Emax < ndigits m + ex - 1 then Inl InvalidOperation
                   else if prec < ndigits m then Inl InvalidOperation
                   else dec_fix (Decimal (with_sign c m) ex))"

definition round_currency :: "decimal \<Rightarrow> error + decimal" where
  "round_currency v = quantize_half_up v (- 2)"

text \<open>Comparison of two \<open>Decimal\<close>s is by value.\<close>

definition dec_less :: "decimal \<Rightarrow> decimal \<Rightarrow> bool" where
  "dec_less a b \<longleftrightarrow> dec_val a < dec_val b"

section \<open>Python's \<open>float\<close>\<close>

text \<open>
  A \<open>float\<close> is an IEEE 754 binary64 number: \<open>Float m e\<close> is the finite value
  \<open>m * 2 ^ e\<close>, kept with \<open>m\<close> odd (zero is \<open>Float 0 0\<close>; the sign of a zero is not
  kept).  Every arithmetic operation computes the exact result and rounds it once,
  to the nearest representable number, ties to even.
\<close>

datatype pyfloat = Float (mantissa: int) (bexponent: int) | PInf | NInf | NaN

text \<open>\<open>n.bit_length() - 1\<close> for \<open>n \<ge> 1\<close>: the last \<open>k\<close> with \<open>2 ^ k \<le> n\<close>.\<close>

function bits_loop :: "int \<Rightarrow> int \<Rightarrow> int \<Rightarrow> int" where
  "bits_loop p k n = (if n < 2 * p \<or> p \<le> 0 then k else bits_loop (2 * p) (k + 1) n)"
  by pat_completeness auto
termination
  by (relation "measure (\<lambda>(p, k, n). nat (n - p + 1))") auto

declare bits_loop.simps [simp del]

definition ilog2 :: "int \<Rightarrow> int" where
  "ilog2 n = bits_loop 1 0 n"

function normalize_float :: "int \<Rightarrow> int \<Rightarrow> pyfloat" where
  "normalize_float m e =
     (if m = 0 then Float 0 0
      else if even m then normalize_float (m div 2) (e + 1)
      else Float m e)"
  by pat_completeness auto
termination
  by (relation "measure (\<lambda>(m, e). nat \<bar>m\<bar>)") auto

declare normalize_float.simps [simp del]

text \<open>The integer nearest to \<open>N / D\<close> (for \<open>0 \<le> N\<close>, \<open>0 < D\<close>), ties to even.\<close>

definition nearest_even :: "int \<Rightarrow> int \<Rightarrow> int" where
  "nearest_even N D =
     (let q = N div D; r = N mod D
      in if D < 2 * r \<or> (2 * r = D \<and> odd q) then q + 1 else q)"

text \<open>
  The binary64 number nearest to the rational \<open>N / D\<close> (\<open>0 < D\<close>): 53 significant
  bits, gradual underflow below \<open>2 ^ -1022\<close>, infinity from \<open>2 ^ 1024\<close> on.
\<close>

definition round_binary64 :: "int \<Rightarrow> int \<Rightarrow> pyfloat" where
  "round_binary64 N D =
     (if N = 0 then Float 0 0
      else
        let a = \<bar>N\<bar>;
            e0 = ilog2 a - ilog2 D;
            e = (if (if 0 \<le> e0 then D * 2 ^ nat e0 \<le> a else D \<le> a * 2 ^ nat (- e0))
                 then e0 else e0 - 1);
            s = max e (- 1022) - 52;
            m = (if 0 \<le> s then nearest_even a (D * 2 ^ nat s)
                 else nearest_even (a * 2 ^ nat (- s)) D)
        in if 971 < s \<or> (s = 971 \<and> 2 ^ 53 \<le> m) then (if N < 0 then NInf else PInf)
           else normalize_float (with_sign N m) s)"

definition round_dyadic :: "int \<Rightarrow> int \<Rightarrow> pyfloat" where
  "round_dyadic m e =
     (if 0 \<le> e then round_binary64 (m * 2 ^ nat e) 1 else round_binary64 m (2 ^ nat (- e)))"

text \<open>\<open>float(d)\<close> for a \<open>Decimal\<close>: the nearest \<open>float\<close>; too large a value gives infinity.\<close>

definition float_of_decimal :: "decimal \<Rightarrow> pyfloat" where
  "float_of_decimal d =
     (if 0 \<le> exponent d then round_binary64 (coefficient d * 10 ^ nat (exponent d)) 1
      else round_binary64 (coefficient d) (10 ^ nat (- exponent d)))"

text \<open>
  An \<open>int\<close> operand of a \<open>float\<close> operation is converted first; an \<open>int\<close> beyond the
  range of \<open>float\<close> raises \<open>OverflowError\<close>.
\<close>

definition float_of_int :: "int \<Rightarrow> error + pyfloat" where
  "float_of_int n =
     (case round_binary64 n 1 of
        Float m e \<Rightarrow> Inr (Float m e)
      | _ \<Rightarrow> Inl OverflowError)"

text \<open>A small \<open>int\<close> literal used as a \<open>float\<close> operand, such as \<open>100\<close> or \<open>72\<close>: exact.\<close>

definition float_lit :: "int \<Rightarrow> pyfloat" where
  "float_lit n = normalize_float n 0"

definition float_sign :: "pyfloat \<Rightarrow> int" where
  "float_sign x = (case x of Float m e \<Rightarrow> sgn m | PInf \<Rightarrow> 1 | NInf \<Rightarrow> - 1 | NaN \<Rightarrow> 0)"

definition float_inf :: "int \<Rightarrow> pyfloat" where
  "float_inf sg = (if sg < 0 then NInf else PInf)"

text \<open>\<open>x <= 0\<close> and \<open>x == 0\<close> on \<open>float\<close>s; NaN compares false.\<close>

definition float_le_zero :: "pyfloat \<Rightarrow> bool" where
  "float_le_zero x = (case x of Float m e \<Rightarrow> m \<le> 0 | NInf \<Rightarrow> True | _ \<Rightarrow> False)"

definition float_is_zero :: "pyfloat \<Rightarrow> bool" where
  "float_is_zero x = (case x of Float m e \<Rightarrow> m = 0 | _ \<Rightarrow> False)"

definition float_mul :: "pyfloat \<Rightarrow> pyfloat \<Rightarrow> pyfloat" where
  "float_mul x y =
     (case (x, y) of
        (Float m1 e1, Float m2 e2) \<Rightarrow> round_dyadic (m1 * m2) (e1 + e2)
      | (NaN, _) \<Rightarrow> NaN
      | (_, NaN) \<Rightarrow> NaN
      | _ \<Rightarrow> (if float_sign x * float_sign y = 0 then NaN
              else float_inf (float_sign x * float_sign y)))"

definition float_add :: "pyfloat \<Rightarrow> pyfloat \<Rightarrow> pyfloat" where
  "float_add x y =
     (case (x, y) of
        (Float m1 e1, Float m2 e2) \<Rightarrow>
          (let e = min e1 e2
           in round_dyadic (m1 * 2 ^ nat (e1 - e) + m2 * 2 ^ nat (e2 - e)) e)
      | (NaN, _) \<Rightarrow> NaN
      | (_, NaN) \<Rightarrow> NaN
      | (Float m1 e1, _) \<Rightarrow> y
      | (_, Float m2 e2) \<Rightarrow> x
      | _ \<Rightarrow> (if x = y then x else NaN))"

text \<open>\<open>x / y\<close> raises \<open>ZeroDivisionError\<close> when \<open>y\<close> is zero.\<close>

definition float_div :: "pyfloat \<Rightarrow> pyfloat \<Rightarrow> error + pyfloat" where
  "float_div x y =
     (if float_is_zero y then Inl ZeroDivisionError
      else
        (case (x, y) of
           (Float m1 e1, Float m2 e2) \<Rightarrow>
             (let N = with_sign m2 m1; D = \<bar>m2\<bar>
              in Inr (if e2 \<le> e1 then round_binary64 (N * 2 ^ nat (e1 - e2)) D
                      else round_binary64 N (D * 2 ^ nat (e2 - e1))))
         | (NaN, _) \<Rightarrow> Inr NaN
         | (_, NaN) \<Rightarrow> Inr NaN
         | (Float m1 e1, _) \<Rightarrow> Inr (Float 0 0)
         | (_, Float m2 e2) \<Rightarrow> Inr (float_inf (float_sign x * float_sign y))
         | _ \<Rightarrow> Inr NaN))"

text \<open>
  \<open>round(x, ndigits)\<close> for a \<open>float\<close> and \<open>ndigits \<ge> 0\<close>: the exact value of \<open>x\<close> is
  rounded to \<open>ndigits\<close> decimal places, ties to even, and the decimal result is
  converted back to the nearest \<open>float\<close>.  Infinities and NaN round to themselves.
\<close>

definition float_round :: "pyfloat \<Rightarrow> nat \<Rightarrow> error + pyfloat" where
  "float_round x ndig =
     (case x of
        Float m e \<Rightarrow>
          (let a = \<bar>m\<bar> * 10 ^ ndig;
               K = (if 0 \<le> e then a * 2 ^ nat e else nearest_even a (2 ^ nat (- e)))
           in (case round_binary64 (with_sign m K) (10 ^ ndig) of
                 Float m' e' \<Rightarrow> Inr (Float m' e')
               | _ \<Rightarrow> Inl OverflowError))
      | _ \<Rightarrow> Inr x)"

section \<open>Strings\<close>

text \<open>
  A \<open>str\<close> is a list of code points below 256.  \<open>isspace\<close>, \<open>lower\<close> and the decimal
  digits are those of Unicode on that range.
\<close>

definition isspace :: "char \<Rightarrow> bool" where
  "isspace c \<longleftrightarrow>
     (let n = of_char c :: nat
      in (9 \<le> n \<and> n \<le> 13) \<or> (28 \<le> n \<and> n \<le> 32) \<or> n = 133 \<or> n = 160)"

definition isdigit :: "char \<Rightarrow> bool" where
  "isdigit c \<longleftrightarrow> (let n = of_char c :: nat in 48 \<le> n \<and> n \<le> 57)"

definition digit_value :: "char \<Rightarrow> int" where
  "digit_value c = int (of_char c) - 48"

definition lower_char :: "char \<Rightarrow> char" where
  "lower_char c =
     (let n = of_char c :: nat
      in if (65 \<le> n \<and> n \<le> 90) \<or> (192 \<le> n \<and> n \<le> 222 \<and> n \<noteq> 215)
         then char_of (n + 32) else c)"

definition lower :: "string \<Rightarrow> string" where
  "lower s = map lower_char s"

definition strip :: "string \<Rightarrow> string" where
  "strip s = rev (dropWhile isspace (rev (dropWhile isspace s)))"

text \<open>\<open>s.replace(c, "")\<close> for a one-character \<open>c\<close>.\<close>

definition remove_char :: "char \<Rightarrow> string \<Rightarrow> string" where
  "remove_char c s = filter (\<lambda>x. x \<noteq> c) s"

text \<open>The value of a run of decimal digits, read from the left.\<close>

definition digits_value :: "string \<Rightarrow> int" where
  "digits_value ds = foldl (\<lambda>acc c. 10 * acc + digit_value c) 0 ds"

subsection \<open>\<open>int(s)\<close>\<close>

text \<open>
  \<open>int(s)\<close> in base 10: surrounding whitespace, an optional sign, then digits, where
  single underscores may separate digits.  Anything else raises \<open>ValueError\<close>; so
  does a literal of more than \<open>sys.int_max_str_digits = 4300\<close> digits.  Only whether
  the conversion fails matters to its callers here, so the failure carries no message.
\<close>

fun int_body :: "string \<Rightarrow> bool \<Rightarrow> string \<Rightarrow> string option" where
  "int_body [] after_digit acc = (if after_digit then Some acc else None)"
| "int_body (c # cs) after_digit acc =
     (if isdigit c then int_body cs True (acc @ [c])
      else if c = CHR ''_'' \<and> after_digit then int_body cs False acc
      else None)"

definition int_max_str_digits :: nat where
  "int_max_str_digits = 4300"

definition py_int :: "string \<Rightarrow> int option" where
  "py_int s =
     (let t = strip s;
          neg = (t \<noteq> [] \<and> hd t = CHR ''-'');
          body = (if t \<noteq> [] \<and> (hd t = CHR ''-'' \<or> hd t = CHR ''+'') then tl t else t)
      in case int_body body False [] of
           None \<Rightarrow> None
         | Some ds \<Rightarrow>
             if int_max_str_digits < length ds then None
             else Some (if neg then - digits_value ds else digits_value ds))"

subsection \<open>\<open>Decimal(s)\<close>\<close>

text \<open>
  The \<open>Decimal\<close> constructor on a string: whitespace around the literal and
  underscores anywhere are dropped; then an optional sign and either digits with an
  optional fraction and an optional exponent, or \<open>Inf\<close>, \<open>Infinity\<close>, \<open>NaN\<close> or
  \<open>sNaN\<close> with an optional payload, in any letter case.  The conversion is exact.
  A malformed literal raises \<open>InvalidOperation\<close>.
\<close>

definition exponent_part :: "string \<Rightarrow> int option" where
  "exponent_part s =
     (case s of
        [] \<Rightarrow> Some 0
      | c # cs \<Rightarrow>
          if c = CHR ''e'' then
            (let neg = (cs \<noteq> [] \<and> hd cs = CHR ''-'');
                 ds = (if cs \<noteq> [] \<and> (hd cs = CHR ''-'' \<or> hd cs = CHR ''+'') then tl cs else cs)
             in if ds \<noteq> [] \<and> list_all isdigit ds
                then Some (if neg then - digits_value ds else digits_value ds)
                else None)
          else None)"

definition Decimal_of_string :: "string \<Rightarrow> error + decimal" where
  "Decimal_of_string s =
     (let t = lower (remove_char CHR ''_'' (strip s));
          neg = (t \<noteq> [] \<and> hd t = CHR ''-'');
          u = (if t \<noteq> [] \<and> (hd t = CHR ''-'' \<or> hd t = CHR ''+'') then tl t else t);
          intpart = takeWhile isdigit u;
          r1 = dropWhile isdigit u;
          fracpart = (if r1 \<noteq> [] \<and> hd r1 = CHR ''.'' then takeWhile isdigit (tl r1) else []);
          r2 = (if r1 \<noteq> [] \<and> hd r1 = CHR ''.'' then dropWhile isdigit (tl r1) else r1)
      in if u = ''inf'' \<or> u = ''infinity'' then Inl NonFinite
         else if take 3 u = ''nan'' \<and> list_all isdigit (drop 3 u) then Inl NonFinite
         else if take 4 u = ''snan'' \<and> list_all isdigit (drop 4 u) then Inl NonFinite
         else if intpart = [] \<and> fracpart = [] then Inl InvalidOperation
         else
           (case exponent_part r2 of
              None \<Rightarrow> Inl InvalidOperation
            | Some ex \<Rightarrow>
                Inr (Decimal (if neg then - digits_value (intpart @ fracpart)
                              else digits_value (intpart @ fracpart))
                             (ex - int (length fracpart)))))"

section \<open>The C library behind \<open>float\<close>\<close>

text \<open>
  Three operations on \<open>float\<close>s are not fixed by IEEE 754 and belong to the platform:
  the natural logarithm, the power function and the shortest decimal representation
  \<open>str(x)\<close>.  They are parameters of the development: \<open>log_value L x\<close> is
  \<open>math.log(x)\<close> for the finite \<open>x > 0\<close> other than \<open>1\<close>, \<open>pow_value L x y\<close> is
  \<open>x ** y\<close> with the exceptions it may raise, and \<open>decimal_of_str L x\<close> is
  \<open>Decimal(str(x))\<close>, the \<open>Decimal\<close> read back from \<open>str(x)\<close>.
\<close>

record libm =
  log_value :: "pyfloat \<Rightarrow> pyfloat"
  pow_value :: "pyfloat \<Rightarrow> pyfloat \<Rightarrow> error + pyfloat"
  decimal_of_str :: "pyfloat \<Rightarrow> error + decimal"

text \<open>
  \<open>math.log(x)\<close> raises \<open>ValueError\<close> for \<open>x \<le> 0\<close>, is exactly \<open>0.0\<close> at \<open>1.0\<close>, and
  maps infinity and NaN to themselves.
\<close>

definition math_log :: "libm \<Rightarrow> pyfloat \<Rightarrow> error + pyfloat" where
  "math_log L x =
     (case x of
        Float m e \<Rightarrow>
          if m \<le> 0 then Inl (ValueError ''math domain error'')
          else if x = Float 1 0 then Inr (Float 0 0)
          else Inr (log_value L x)
      | PInf \<Rightarrow> Inr PInf
      | NInf \<Rightarrow> Inl (ValueError ''math domain error'')
      | NaN \<Rightarrow> Inr NaN)"

section \<open>The projection engine (\<open>calculator.py\<close>)\<close>

record YearlySnapshot =
  year :: int
  balance :: decimal
  interest_earned :: decimal
  contributions_ytd :: decimal
  ytd_growth_pct :: pyfloat
  cumulative_interest :: decimal

record ProjectionResult =
  principal :: decimal
  final_amount :: decimal
  total_interest :: decimal
  total_contributions :: decimal
  effective_apy :: decimal
  doubling_time :: pyfloat
  rate :: decimal
  years :: int
  compound_freq :: int
  contribution :: decimal
  contribution_freq :: int
  yearly_breakdown :: "YearlySnapshot list"

text \<open>\<open>d > n\<close> for a \<open>Decimal\<close> \<open>d\<close> and an \<open>int\<close> \<open>n\<close>.\<close>

definition dec_gt_int :: "decimal \<Rightarrow> int \<Rightarrow> bool" where
  "dec_gt_int d n =
     (if 0 \<le> exponent d then n < coefficient d * 10 ^ nat (exponent d)
      else n * 10 ^ nat (- exponent d) < coefficient d)"

definition dec_lt_int :: "decimal \<Rightarrow> int \<Rightarrow> bool" where
  "dec_lt_int d n =
     (if 0 \<le> exponent d then coefficient d * 10 ^ nat (exponent d) < n
      else coefficient d < n * 10 ^ nat (- exponent d))"

subsection \<open>\<open>calculate_effective_apy\<close>\<close>

definition calculate_effective_apy :: "libm \<Rightarrow> decimal \<Rightarrow> int \<Rightarrow> error + decimal" where
  "calculate_effective_apy L rate' compound_freq' =
     (let r = float_of_decimal rate'
      in bind_e (float_of_int compound_freq') (\<lambda>n.
         bind_e (float_div r n) (\<lambda>q.
         bind_e (pow_value L (float_add (Float 1 0) q) n) (\<lambda>p.
         decimal_of_str L (float_add p (Float (- 1) 0))))))"

subsection \<open>\<open>calculate_doubling_time\<close>\<close>

text \<open>
  The \<open>try\<close> block: \<open>math.log(2) / (n * math.log(1 + r / n))\<close>, rounded to one
  decimal.
\<close>

definition doubling_formula :: "libm \<Rightarrow> pyfloat \<Rightarrow> int \<Rightarrow> error + pyfloat" where
  "doubling_formula L r n =
     bind_e (math_log L (float_lit 2)) (\<lambda>log2.
     bind_e (float_of_int n) (\<lambda>nf.
     bind_e (float_div r nf) (\<lambda>q.
     bind_e (math_log L (float_add (Float 1 0) q)) (\<lambda>lg.
     bind_e (float_div log2 (float_mul nf lg)) (\<lambda>t.
     float_round t 1)))))"

text \<open>The \<open>except\<close> branch: \<open>round(72 / (r * 100), 1)\<close>.\<close>

definition rule_of_72 :: "pyfloat \<Rightarrow> error + pyfloat" where
  "rule_of_72 r =
     bind_e (float_div (float_lit 72) (float_mul r (float_lit 100))) (\<lambda>t. float_round t 1)"

definition calculate_doubling_time :: "libm \<Rightarrow> decimal \<Rightarrow> int \<Rightarrow> error + pyfloat" where
  "calculate_doubling_time L rate' compound_freq' =
     (let r = float_of_decimal rate'; n = compound_freq'
      in if float_le_zero r then Inr PInf
         else
           (case doubling_formula L r n of
              Inr t \<Rightarrow> Inr t
            | Inl (ValueError msg) \<Rightarrow> rule_of_72 r
            | Inl ZeroDivisionError \<Rightarrow> rule_of_72 r
            | Inl e \<Rightarrow> Inl e))"

subsection \<open>\<open>calculate_compound_interest\<close>\<close>

text \<open>The variables the inner loop over the periods of one year updates.\<close>

record period_vars =
  p_balance :: decimal
  p_year_interest :: decimal
  p_year_contributions :: decimal
  p_total_contributions :: decimal

text \<open>The body of \<open>for period in range(compound_freq)\<close>.\<close>

definition period_step ::
  "decimal \<Rightarrow> int \<Rightarrow> decimal \<Rightarrow> int \<Rightarrow> int \<Rightarrow> period_vars \<Rightarrow> error + period_vars" where
  "period_step period_rate compound_freq' contribution' contribution_freq' period v =
     bind_e (dec_mul (p_balance v) period_rate) (\<lambda>interest.
     bind_e (dec_add (p_balance v) interest) (\<lambda>balance1.
     bind_e (dec_add (p_year_interest v) interest) (\<lambda>year_interest1.
       if dec_gt_int contribution' 0 then
         (if contribution_freq' = 0 then Inl ZeroDivisionError
          else
            let q = compound_freq' div contribution_freq';
                periods_per_contribution = (if q = 0 then 1 else q)
            in if (period + 1) mod periods_per_contribution = 0 then
                 bind_e (dec_add balance1 contribution') (\<lambda>balance2.
                 bind_e (dec_add (p_year_contributions v) contribution') (\<lambda>year_contributions1.
                 bind_e (dec_add (p_total_contributions v) contribution') (\<lambda>total_contributions1.
                   Inr \<lparr>p_balance = balance2, p_year_interest = year_interest1,
                        p_year_contributions = year_contributions1,
                        p_total_contributions = total_contributions1\<rparr>)))
               else Inr (v\<lparr>p_balance := balance1, p_year_interest := year_interest1\<rparr>))
       else Inr (v\<lparr>p_balance := balance1, p_year_interest := year_interest1\<rparr>))))"

fun period_loop ::
  "decimal \<Rightarrow> int \<Rightarrow> decimal \<Rightarrow> int \<Rightarrow> int list \<Rightarrow> period_vars \<Rightarrow> error + period_vars" where
  "period_loop period_rate compound_freq' contribution' contribution_freq' [] v = Inr v"
| "period_loop period_rate compound_freq' contribution' contribution_freq' (period # periods) v =
     bind_e (period_step period_rate compound_freq' contribution' contribution_freq' period v)
       (period_loop period_rate compound_freq' contribution' contribution_freq' periods)"

text \<open>The variables the outer loop over the years updates.\<close>

record year_vars =
  y_balance :: decimal
  y_total_contributions :: decimal
  y_cumulative_interest :: decimal
  y_yearly_breakdown :: "YearlySnapshot list"

text \<open>
  \<open>ytd_growth\<close>: \<open>float(year_interest / year_start_balance) * 100\<close> when the year
  started with a positive balance, \<open>0.0\<close> otherwise.
\<close>

definition ytd_growth :: "decimal \<Rightarrow> decimal \<Rightarrow> error + pyfloat" where
  "ytd_growth year_interest year_start_balance =
     (if dec_gt_int year_start_balance 0
      then bind_e (dec_div year_interest year_start_balance) (\<lambda>q.
             Inr (float_mul (float_of_decimal q) (float_lit 100)))
      else Inr (Float 0 0))"

text \<open>The body of \<open>for year in range(1, years + 1)\<close>.\<close>

definition year_step ::
  "decimal \<Rightarrow> int \<Rightarrow> decimal \<Rightarrow> int \<Rightarrow> int \<Rightarrow> year_vars \<Rightarrow> error + year_vars" where
  "year_step period_rate compound_freq' contribution' contribution_freq' year' v =
     (let year_start_balance = y_balance v
      in bind_e (period_loop period_rate compound_freq' contribution' contribution_freq'
                   [0..compound_freq' - 1]
                   \<lparr>p_balance = y_balance v, p_year_interest = Decimal 0 0,
                    p_year_contributions = Decimal 0 0,
                    p_total_contributions = y_total_contributions v\<rparr>) (\<lambda>p.
         bind_e (dec_add (y_cumulative_interest v) (p_year_interest p)) (\<lambda>cumulative_interest1.
         bind_e (ytd_growth (p_year_interest p) year_start_balance) (\<lambda>growth.
         bind_e (round_currency (p_balance p)) (\<lambda>snap_balance.
         bind_e (round_currency (p_year_interest p)) (\<lambda>snap_interest.
         bind_e (round_currency (p_year_contributions p)) (\<lambda>snap_contributions.
         bind_e (float_round growth 2) (\<lambda>snap_growth.
         bind_e (round_currency cumulative_interest1) (\<lambda>snap_cumulative.
           Inr \<lparr>y_balance = p_balance p,
                y_total_contributions = p_total_contributions p,
                y_cumulative_interest = cumulative_interest1,
                y_yearly_breakdown = y_yearly_breakdown v @
                  [\<lparr>year = year', balance = snap_balance, interest_earned = snap_interest,
                    contributions_ytd = snap_contributions, ytd_growth_pct = snap_growth,
                    cumulative_interest = snap_cumulative\<rparr>]\<rparr>)))))))))"

fun year_loop ::
  "decimal \<Rightarrow> int \<Rightarrow> decimal \<Rightarrow> int \<Rightarrow> int list \<Rightarrow> year_vars \<Rightarrow> error + year_vars" where
  "year_loop period_rate compound_freq' contribution' contribution_freq' [] v = Inr v"
| "year_loop period_rate compound_freq' contribution' contribution_freq' (year' # ys) v =
     bind_e (year_step period_rate compound_freq' contribution' contribution_freq' year' v)
       (year_loop period_rate compound_freq' contribution' contribution_freq' ys)"

definition calculate_compound_interest ::
  "libm \<Rightarrow> decimal \<Rightarrow> decimal \<Rightarrow> int \<Rightarrow> int \<Rightarrow> decimal \<Rightarrow> int \<Rightarrow> error + ProjectionResult" where
  "calculate_compound_interest L principal' rate' years' compound_freq' contribution'
       contribution_freq' =
     bind_e (dec_div rate' (dec_of_int compound_freq')) (\<lambda>period_rate.
     bind_e (year_loop period_rate compound_freq' contribution' contribution_freq' [1..years']
               \<lparr>y_balance = principal', y_total_contributions = Decimal 0 0,
                y_cumulative_interest = Decimal 0 0, y_yearly_breakdown = []\<rparr>) (\<lambda>v.
     bind_e (round_currency (y_balance v)) (\<lambda>final_amount'.
     bind_e (round_currency (y_cumulative_interest v)) (\<lambda>total_interest'.
     bind_e (calculate_effective_apy L rate' compound_freq') (\<lambda>effective_apy'.
     bind_e (calculate_doubling_time L rate' compound_freq') (\<lambda>doubling_time'.
     bind_e (round_currency (y_total_contributions v)) (\<lambda>total_contributions'.
       Inr \<lparr>principal = principal', final_amount = final_amount',
            total_interest = total_interest', total_contributions = total_contributions',
            effective_apy = effective_apy', doubling_time = doubling_time',
            rate = rate', years = years', compound_freq = compound_freq',
            contribution = contribution', contribution_freq = contribution_freq',
            yearly_breakdown = y_yearly_breakdown v\<rparr>)))))))"

section \<open>A reference platform\<close>

text \<open>
  To run the engine on concrete inputs the three platform operations need values.
  \<open>reference_libm\<close> takes the logarithm from a fixed-point series good to about 60
  bits and rounds it, computes integer powers exactly and rounds them (raising
  \<open>OverflowError\<close> when the result is out of range, as C's \<open>pow\<close> makes Python do),
  and reads a finite \<open>float\<close> back as the \<open>Decimal\<close> of its exact value.
\<close>

function atanh_sum :: "int \<Rightarrow> int \<Rightarrow> int \<Rightarrow> int \<Rightarrow> int" where
  "atanh_sum t a2 b2 j =
     (if t \<le> 0 \<or> a2 < 0 \<or> b2 \<le> a2 then 0
      else t div j + atanh_sum (t * a2 div b2) a2 b2 (j + 2))"
  by pat_completeness auto
termination
proof (relation "measure (\<lambda>(t, a2, b2, j). nat t)", goal_cases)
  case 1
  show ?case by simp
next
  case (2 t a2 b2 j)
  then have b: "0 < b2" and le: "t * a2 \<le> t * b2 - 1"
    by (auto simp: mult_less_cancel_left_pos dest!: zless_imp_add1_zle)
  have "t * b2 - 1 = b2 * (t - 1) + (b2 - 1)" by (simp add: algebra_simps)
  with b have "(t * b2 - 1) div b2 = t - 1"
    using int_div_pos_eq [of "t * b2 - 1" b2 "t - 1" "b2 - 1"] by simp
  with zdiv_mono1[OF le b] have "t * a2 div b2 < t" by simp
  with 2 show ?case by simp
qed

declare atanh_sum.simps [simp del]

text \<open>
  \<open>ln (N / D) * 2 ^ 64\<close> for \<open>1 \<le> N / D \<le> 2\<close>, from \<open>ln x = 2 * artanh ((x - 1) / (x + 1))\<close>;
  \<open>ln_2_fixed\<close> is \<open>ln 2 * 2 ^ 64\<close>.
\<close>

definition ln_fixed :: "int \<Rightarrow> int \<Rightarrow> int" where
  "ln_fixed N D =
     2 * atanh_sum ((N - D) * 2 ^ 64 div (N + D)) ((N - D) * (N - D)) ((N + D) * (N + D)) 1"

definition ln_2_fixed :: int where
  "ln_2_fixed = 12786308645202655659"

definition reference_log :: "pyfloat \<Rightarrow> pyfloat" where
  "reference_log x =
     (case x of
        Float m e \<Rightarrow>
          (let k = ilog2 m
           in round_binary64 (ln_fixed m (2 ^ nat k) + (k + e) * ln_2_fixed) (2 ^ 64))
      | _ \<Rightarrow> x)"

definition reference_pow :: "pyfloat \<Rightarrow> pyfloat \<Rightarrow> error + pyfloat" where
  "reference_pow x y =
     (case (x, y) of
        (Float m e, Float k j) \<Rightarrow>
          if 0 \<le> j \<and> 0 \<le> k then
            (let n = nat (k * 2 ^ nat j)
             in case round_dyadic (m ^ n) (e * int n) of
                  Float m' e' \<Rightarrow> Inr (Float m' e')
                | _ \<Rightarrow> Inl OverflowError)
          else Inr NaN
      | _ \<Rightarrow> Inr NaN)"

definition reference_decimal_of_str :: "pyfloat \<Rightarrow> error + decimal" where
  "reference_decimal_of_str x =
     (case x of
        Float m e \<Rightarrow>
          Inr (if 0 \<le> e then Decimal (m * 2 ^ nat e) 0 else Decimal (m * 5 ^ nat (- e)) e)
      | _ \<Rightarrow> Inl NonFinite)"

definition reference_libm :: libm where
  "reference_libm =
     \<lparr>log_value = reference_log, pow_value = reference_pow,
      decimal_of_str = reference_decimal_of_str\<rparr>"

section \<open>Auxiliary notions for the claims\<close>


text \<open>
  One compounding period without a contribution, \<open>balance += balance * period_rate\<close>,
  and \<open>j\<close> of them in a row, in \<open>Decimal\<close> arithmetic.
\<close>

definition compound_period :: "decimal \<Rightarrow> decimal \<Rightarrow> error + decimal" where
  "compound_period period_rate b = bind_e (dec_mul b period_rate) (dec_add b)"


text \<open>
  The contribution timing policy in the words of the specification: with
  \<open>periods_per_contribution = max(1, compound_freq // contribution_freq)\<close>, a
  contribution is due at the end of every period whose 1-based index is divisible by
  it.  \<open>spec_period\<close> is one period under that policy, \<open>spec_years\<close> a number of whole
  years, \<open>add_times c j t\<close> adds \<open>c\<close> to \<open>t\<close> \<open>j\<close> times, and \<open>contributions_per_year\<close>
  counts the periods of a year in which a contribution is due.
\<close>

definition periods_per_contribution :: "int \<Rightarrow> int \<Rightarrow> int" where
  "periods_per_contribution compound_freq' contribution_freq' =
     max 1 (compound_freq' div contribution_freq')"

definition contribution_due :: "int \<Rightarrow> int \<Rightarrow> bool" where
  "contribution_due ppc period \<longleftrightarrow> ppc dvd period + 1"

definition spec_period :: "decimal \<Rightarrow> int \<Rightarrow> decimal \<Rightarrow> int \<Rightarrow> decimal \<Rightarrow> error + decimal" where
  "spec_period period_rate ppc c period b =
     bind_e (compound_period period_rate b) (\<lambda>b1.
       if contribution_due ppc period then dec_add b1 c else Inr b1)"

fun spec_periods :: "decimal \<Rightarrow> int \<Rightarrow> decimal \<Rightarrow> int list \<Rightarrow> decimal \<Rightarrow> error + decimal" where
  "spec_periods period_rate ppc c [] b = Inr b"
| "spec_periods period_rate ppc c (period # periods) b =
     bind_e (spec_period period_rate ppc c period b) (spec_periods period_rate ppc c periods)"

fun spec_years :: "decimal \<Rightarrow> int \<Rightarrow> decimal \<Rightarrow> int \<Rightarrow> nat \<Rightarrow> decimal \<Rightarrow> error + decimal" where
  "spec_years period_rate ppc c n 0 b = Inr b"
| "spec_years period_rate ppc c n (Suc y) b =
     bind_e (spec_periods period_rate ppc c [0..n - 1] b) (spec_years period_rate ppc c n y)"

fun add_times :: "decimal \<Rightarrow> nat \<Rightarrow> decimal \<Rightarrow> error + decimal" where
  "add_times c 0 t = Inr t"
| "add_times c (Suc j) t = bind_e (dec_add t c) (add_times c j)"

definition contributions_per_year :: "int \<Rightarrow> int \<Rightarrow> nat" where
  "contributions_per_year n ppc = length (filter (contribution_due ppc) [0..n - 1])"

text \<open>After a year the last snapshot holds the rounded running totals.\<close>

definition last_matches :: "year_vars \<Rightarrow> bool" where
  "last_matches v \<longleftrightarrow> y_yearly_breakdown v \<noteq> [] \<and>
     round_currency (y_balance v) = Inr (balance (last (y_yearly_breakdown v))) \<and>
     round_currency (y_cumulative_interest v) =
       Inr (cumulative_interest (last (y_yearly_breakdown v)))"

section \<open>Running the definitions\<close>

text \<open>
  Concrete runs are evaluated by rewriting.  The congruence rules keep the simplifier
  from entering the continuation of a \<open>bind_e\<close>, the body of a \<open>let\<close> or the branches
  of a \<open>case\<close> before the value they depend on is known.
\<close>

lemma bind_e_simps: "bind_e (Inr x) f = f x" "bind_e (Inl e) f = Inl e"
  by (simp_all add: bind_e_def)

lemma bind_e_weak_cong: "m = m' \<Longrightarrow> bind_e m f = bind_e m' f"
  by simp

lemmas eval_cong =
  bind_e_weak_cong let_weak_cong sum.case_cong_weak prod.case_cong_weak
  pyfloat.case_cong_weak list.case_cong_weak option.case_cong_weak

lemmas eval_base = Let_def bind_e_simps with_sign_def

lemmas dec_eval =
  dec_div_def dec_mul_def dec_add_def dec_fix_def dec_of_int_def ndigits_def
  digits_loop.simps strip_zeros.simps prec_def Etop_def Etiny_def Emin_def Emax_def
  round_half_even_def round_half_up_def quantize_half_up_def round_currency_def
  dec_gt_int_def dec_lt_int_def

lemmas float_eval =
  float_of_decimal_def round_binary64_def ilog2_def bits_loop.simps nearest_even_def
  normalize_float.simps float_mul_def float_add_def float_div_def float_round_def
  float_lit_def round_dyadic_def float_of_int_def float_is_zero_def float_le_zero_def
  float_sign_def float_inf_def

lemmas libm_eval =
  reference_libm_def reference_log_def ln_fixed_def ln_2_fixed_def atanh_sum.simps
  reference_pow_def reference_decimal_of_str_def math_log_def

text \<open>
  Removing trailing zeros digit by digit is slow to replay; \<open>k\<close> of them go at once.
\<close>

lemma strip_zeros_pow10:
  "ex + int k \<le> ideal \<Longrightarrow>
     strip_zeros ideal (c * 10 ^ k) ex = strip_zeros ideal c (ex + int k)"
proof (induction k arbitrary: ex)
  case 0
  show ?case by simp
next
  case (Suc k)
  then have "ex < ideal" and "ex + 1 + int k \<le> ideal" by simp_all
  then show ?case
    using Suc.IH [of "ex + 1"] by (subst strip_zeros.simps) (simp add: add.assoc)
qed

lemma strip_zeros_run1_rate:
  "strip_zeros (- 2) 250000000000000000000000000000 (- 31) = (25, (- 3))"
proof -
  have "strip_zeros (- 2) (25 * 10 ^ 28) (- 31) = strip_zeros (- 2) 25 ((- 31) + int 28)"
    by (rule strip_zeros_pow10) simp
  also have "strip_zeros (- 2) 25 ((- 31) + int 28) = (25, (- 3))"
    by (simp add: strip_zeros.simps)
  finally show ?thesis by simp
qed

lemma strip_zeros_run1_growth:
  "strip_zeros (- 6) 506250000000000000000000000000 (- 31) = (50625, (- 6))"
proof -
  have "strip_zeros (- 6) (50625 * 10 ^ 25) (- 31) = strip_zeros (- 6) 50625 ((- 31) + int 25)"
    by (rule strip_zeros_pow10) simp
  also have "strip_zeros (- 6) 50625 ((- 31) + int 25) = (50625, (- 6))"
    by (simp add: strip_zeros.simps)
  finally show ?thesis by simp
qed



lemmas strip_zeros_run1 = strip_zeros_run1_rate strip_zeros_run1_growth


lemmas dec_eval_fast =
  dec_div_def dec_mul_def dec_add_def dec_fix_def dec_of_int_def ndigits_def
  digits_loop.simps prec_def Etop_def Etiny_def Emin_def Emax_def
  round_half_even_def round_half_up_def quantize_half_up_def round_currency_def
  dec_gt_int_def dec_lt_int_def

lemma upto_1_2: "[1..2] = [1, 2]" and upto_1_1: "[1..1] = [1]"
  by (simp_all add: upto.simps)

lemma bind_e_Inr: "bind_e m f = Inr y \<longleftrightarrow> (\<exists>x. m = Inr x \<and> f x = Inr y)"
  by (cases m) (simp_all add: bind_e_def)

subsection \<open>A run without contributions\<close>

text \<open>
  1000 at 5 % for two years, compounded twice a year, on the reference platform:
  the balance grows to 1050.625 and then to 1103.812890625.
\<close>

lemma run1_period_rate: "dec_div (Decimal 5 (- 2)) (dec_of_int 2) = Inr (Decimal 25 (- 3))"
  by (simp add: eval_base dec_eval_fast strip_zeros_run1 cong: eval_cong)

lemma run1_periods1:
  "period_loop (Decimal 25 (- 3)) 2 (Decimal 0 0) 12 [0..1]
     \<lparr>p_balance = Decimal 1000 0, p_year_interest = Decimal 0 0,
      p_year_contributions = Decimal 0 0, p_total_contributions = Decimal 0 0\<rparr> =
   Inr \<lparr>p_balance = Decimal 1050625000 (- 6), p_year_interest = Decimal 50625000 (- 6),
        p_year_contributions = Decimal 0 0, p_total_contributions = Decimal 0 0\<rparr>"
  by (simp add: period_step_def eval_base dec_eval upto.simps cong: eval_cong)

lemma run1_periods2:
  "period_loop (Decimal 25 (- 3)) 2 (Decimal 0 0) 12 [0..1]
     \<lparr>p_balance = Decimal 1050625000 (- 6), p_year_interest = Decimal 0 0,
      p_year_contributions = Decimal 0 0, p_total_contributions = Decimal 0 0\<rparr> =
   Inr \<lparr>p_balance = Decimal 1103812890625000 (- 12),
        p_year_interest = Decimal 53187890625000 (- 12),
        p_year_contributions = Decimal 0 0, p_total_contributions = Decimal 0 0\<rparr>"
  by (simp add: period_step_def eval_base dec_eval upto.simps cong: eval_cong)

lemma run1_growth1:
  "ytd_growth (Decimal 50625000 (- 6)) (Decimal 1000 0) = Inr (Float 81 (- 4))"
  by (simp add: ytd_growth_def eval_base dec_eval_fast strip_zeros_run1 float_eval
      cong: eval_cong)

lemma run1_growth2:
  "ytd_growth (Decimal 53187890625000 (- 12)) (Decimal 1050625000 (- 6)) = Inr (Float 81 (- 4))"
  by (simp add: ytd_growth_def eval_base dec_eval_fast strip_zeros_run1 float_eval
      cong: eval_cong)

lemma run1_growth_round: "float_round (Float 81 (- 4)) 2 = Inr (Float 5697053528623677 (- 50))"
  by (simp add: eval_base float_eval cong: eval_cong)

lemma run1_cumulative:
  "dec_add (Decimal 0 0) (Decimal 50625000 (- 6)) = Inr (Decimal 50625000 (- 6))"
  "dec_add (Decimal 50625000 (- 6)) (Decimal 53187890625000 (- 12)) =
     Inr (Decimal 103812890625000 (- 12))"
  by (simp_all add: eval_base dec_eval cong: eval_cong)

lemma run1_round_currency:
  "round_currency (Decimal 1050625000 (- 6)) = Inr (Decimal 105063 (- 2))"
  "round_currency (Decimal 50625000 (- 6)) = Inr (Decimal 5063 (- 2))"
  "round_currency (Decimal 0 0) = Inr (Decimal 0 (- 2))"
  "round_currency (Decimal 1103812890625000 (- 12)) = Inr (Decimal 110381 (- 2))"
  "round_currency (Decimal 53187890625000 (- 12)) = Inr (Decimal 5319 (- 2))"
  "round_currency (Decimal 103812890625000 (- 12)) = Inr (Decimal 10381 (- 2))"
  by (simp_all add: eval_base dec_eval cong: eval_cong)

lemma run1_years:
  "year_loop (Decimal 25 (- 3)) 2 (Decimal 0 0) 12 [1..2]
     \<lparr>y_balance = Decimal 1000 0, y_total_contributions = Decimal 0 0,
      y_cumulative_interest = Decimal 0 0, y_yearly_breakdown = []\<rparr> =
   Inr \<lparr>y_balance = Decimal 1103812890625000 (- 12),
        y_total_contributions = Decimal 0 0,
        y_cumulative_interest = Decimal 103812890625000 (- 12),
        y_yearly_breakdown =
          [\<lparr>year = 1, balance = Decimal 105063 (- 2), interest_earned = Decimal 5063 (- 2),
            contributions_ytd = Decimal 0 (- 2),
            ytd_growth_pct = Float 5697053528623677 (- 50),
            cumulative_interest = Decimal 5063 (- 2)\<rparr>,
           \<lparr>year = 2, balance = Decimal 110381 (- 2), interest_earned = Decimal 5319 (- 2),
            contributions_ytd = Decimal 0 (- 2),
            ytd_growth_pct = Float 5697053528623677 (- 50),
            cumulative_interest = Decimal 10381 (- 2)\<rparr>]\<rparr>"
  by (simp add: upto_1_2 year_step_def run1_periods1 run1_periods2 run1_growth1 run1_growth2
      run1_growth_round run1_cumulative run1_round_currency bind_e_simps cong: eval_cong)

lemma run1_apy:
  "calculate_effective_apy reference_libm (Decimal 5 (- 2)) 2 =
     Inr (Decimal 506249999999999200639422269887290894985198974609375 (- 52))"
  by (simp add: calculate_effective_apy_def libm_eval eval_base float_eval cong: eval_cong)

lemma run1_doubling:
  "calculate_doubling_time reference_libm (Decimal 5 (- 2)) 2 = Inr (Float 7 1)"
  by (simp add: calculate_doubling_time_def doubling_formula_def libm_eval eval_base
      float_eval cong: eval_cong)

lemma run1:
  "calculate_compound_interest reference_libm (Decimal 1000 0) (Decimal 5 (- 2)) 2 2
     (Decimal 0 0) 12 =
   Inr \<lparr>principal = Decimal 1000 0, final_amount = Decimal 110381 (- 2),
        total_interest = Decimal 10381 (- 2), total_contributions = Decimal 0 (- 2),
        effective_apy = Decimal 506249999999999200639422269887290894985198974609375 (- 52),
        doubling_time = Float 7 1, rate = Decimal 5 (- 2), years = 2, compound_freq = 2,
        contribution = Decimal 0 0, contribution_freq = 12,
        yearly_breakdown =
          [\<lparr>year = 1, balance = Decimal 105063 (- 2), interest_earned = Decimal 5063 (- 2),
            contributions_ytd = Decimal 0 (- 2),
            ytd_growth_pct = Float 5697053528623677 (- 50),
            cumulative_interest = Decimal 5063 (- 2)\<rparr>,
           \<lparr>year = 2, balance = Decimal 110381 (- 2), interest_earned = Decimal 5319 (- 2),
            contributions_ytd = Decimal 0 (- 2),
            ytd_growth_pct = Float 5697053528623677 (- 50),
            cumulative_interest = Decimal 10381 (- 2)\<rparr>]\<rparr>"
  by (simp add: calculate_compound_interest_def run1_period_rate run1_years run1_apy
      run1_doubling run1_round_currency bind_e_simps cong: eval_cong)

subsection \<open>A run with a 26-digit principal\<close>













subsection \<open>Runs with contributions\<close>

text \<open>
  1000 at 5 %, compounded twice a year, with one contribution a year: of 50 over two
  years, and of half a cent over one year.
\<close>

lemma run3_periods1:
  "period_loop (Decimal 25 (- 3)) 2 (Decimal 50 0) 1 [0..1]
     \<lparr>p_balance = Decimal 1000 0, p_year_interest = Decimal 0 0,
      p_year_contributions = Decimal 0 0, p_total_contributions = Decimal 0 0\<rparr> =
   Inr \<lparr>p_balance = Decimal 1100625000 (- 6), p_year_interest = Decimal 50625000 (- 6),
        p_year_contributions = Decimal 50 0, p_total_contributions = Decimal 50 0\<rparr>"
  by (simp add: period_step_def eval_base dec_eval upto.simps cong: eval_cong)

lemma run3_periods2:
  "period_loop (Decimal 25 (- 3)) 2 (Decimal 50 0) 1 [0..1]
     \<lparr>p_balance = Decimal 1100625000 (- 6), p_year_interest = Decimal 0 0,
      p_year_contributions = Decimal 0 0, p_total_contributions = Decimal 50 0\<rparr> =
   Inr \<lparr>p_balance = Decimal 1206344140625000 (- 12),
        p_year_interest = Decimal 55719140625000 (- 12),
        p_year_contributions = Decimal 50 0, p_total_contributions = Decimal 100 0\<rparr>"
  by (simp add: period_step_def eval_base dec_eval upto.simps cong: eval_cong)

lemma run3_growth2:
  "ytd_growth (Decimal 55719140625000 (- 12)) (Decimal 1100625000 (- 6)) = Inr (Float 81 (- 4))"
  by (simp add: ytd_growth_def eval_base dec_eval_fast strip_zeros_run1 float_eval
      cong: eval_cong)

lemma run3_cumulative:
  "dec_add (Decimal 50625000 (- 6)) (Decimal 55719140625000 (- 12)) =
     Inr (Decimal 106344140625000 (- 12))"
  by (simp add: eval_base dec_eval cong: eval_cong)

lemma run3_round_currency:
  "round_currency (Decimal 1100625000 (- 6)) = Inr (Decimal 110063 (- 2))"
  "round_currency (Decimal 50 0) = Inr (Decimal 5000 (- 2))"
  "round_currency (Decimal 100 0) = Inr (Decimal 10000 (- 2))"
  "round_currency (Decimal 1206344140625000 (- 12)) = Inr (Decimal 120634 (- 2))"
  "round_currency (Decimal 55719140625000 (- 12)) = Inr (Decimal 5572 (- 2))"
  "round_currency (Decimal 106344140625000 (- 12)) = Inr (Decimal 10634 (- 2))"
  by (simp_all add: eval_base dec_eval cong: eval_cong)

lemma run3_years:
  "year_loop (Decimal 25 (- 3)) 2 (Decimal 50 0) 1 [1..2]
     \<lparr>y_balance = Decimal 1000 0, y_total_contributions = Decimal 0 0,
      y_cumulative_interest = Decimal 0 0, y_yearly_breakdown = []\<rparr> =
   Inr \<lparr>y_balance = Decimal 1206344140625000 (- 12),
        y_total_contributions = Decimal 100 0,
        y_cumulative_interest = Decimal 106344140625000 (- 12),
        y_yearly_breakdown =
          [\<lparr>year = 1, balance = Decimal 110063 (- 2), interest_earned = Decimal 5063 (- 2),
            contributions_ytd = Decimal 5000 (- 2),
            ytd_growth_pct = Float 5697053528623677 (- 50),
            cumulative_interest = Decimal 5063 (- 2)\<rparr>,
           \<lparr>year = 2, balance = Decimal 120634 (- 2), interest_earned = Decimal 5572 (- 2),
            contributions_ytd = Decimal 5000 (- 2),
            ytd_growth_pct = Float 5697053528623677 (- 50),
            cumulative_interest = Decimal 10634 (- 2)\<rparr>]\<rparr>"
  by (simp add: upto_1_2 year_step_def run3_periods1 run3_periods2 run1_growth1 run3_growth2
      run1_growth_round run1_cumulative run3_cumulative run1_round_currency
      run3_round_currency bind_e_simps cong: eval_cong)

lemma run3:
  "calculate_compound_interest reference_libm (Decimal 1000 0) (Decimal 5 (- 2)) 2 2
     (Decimal 50 0) 1 =
   Inr \<lparr>principal = Decimal 1000 0, final_amount = Decimal 120634 (- 2),
        total_interest = Decimal 10634 (- 2), total_contributions = Decimal 10000 (- 2),
        effective_apy = Decimal 506249999999999200639422269887290894985198974609375 (- 52),
        doubling_time = Float 7 1, rate = Decimal 5 (- 2), years = 2, compound_freq = 2,
        contribution = Decimal 50 0, contribution_freq = 1,
        yearly_breakdown =
          [\<lparr>year = 1, balance = Decimal 110063 (- 2), interest_earned = Decimal 5063 (- 2),
            contributions_ytd = Decimal 5000 (- 2),
            ytd_growth_pct = Float 5697053528623677 (- 50),
            cumulative_interest = Decimal 5063 (- 2)\<rparr>,
           \<lparr>year = 2, balance = Decimal 120634 (- 2), interest_earned = Decimal 5572 (- 2),
            contributions_ytd = Decimal 5000 (- 2),
            ytd_growth_pct = Float 5697053528623677 (- 50),
            cumulative_interest = Decimal 10634 (- 2)\<rparr>]\<rparr>"
  by (simp add: calculate_compound_interest_def run1_period_rate run3_years run1_apy
      run1_doubling run3_round_currency bind_e_simps cong: eval_cong)

lemma run4_periods:
  "period_loop (Decimal 25 (- 3)) 2 (Decimal 5 (- 3)) 1 [0..1]
     \<lparr>p_balance = Decimal 1000 0, p_year_interest = Decimal 0 0,
      p_year_contributions = Decimal 0 0, p_total_contributions = Decimal 0 0\<rparr> =
   Inr \<lparr>p_balance = Decimal 1050630000 (- 6), p_year_interest = Decimal 50625000 (- 6),
        p_year_contributions = Decimal 5 (- 3), p_total_contributions = Decimal 5 (- 3)\<rparr>"
  by (simp add: period_step_def eval_base dec_eval upto.simps cong: eval_cong)

lemma run4_round_currency:
  "round_currency (Decimal 1050630000 (- 6)) = Inr (Decimal 105063 (- 2))"
  "round_currency (Decimal 5 (- 3)) = Inr (Decimal 1 (- 2))"
  by (simp_all add: eval_base dec_eval cong: eval_cong)

lemma run4_years:
  "year_loop (Decimal 25 (- 3)) 2 (Decimal 5 (- 3)) 1 [1]
     \<lparr>y_balance = Decimal 1000 0, y_total_contributions = Decimal 0 0,
      y_cumulative_interest = Decimal 0 0, y_yearly_breakdown = []\<rparr> =
   Inr \<lparr>y_balance = Decimal 1050630000 (- 6),
        y_total_contributions = Decimal 5 (- 3),
        y_cumulative_interest = Decimal 50625000 (- 6),
        y_yearly_breakdown =
          [\<lparr>year = 1, balance = Decimal 105063 (- 2), interest_earned = Decimal 5063 (- 2),
            contributions_ytd = Decimal 1 (- 2),
            ytd_growth_pct = Float 5697053528623677 (- 50),
            cumulative_interest = Decimal 5063 (- 2)\<rparr>]\<rparr>"
  by (simp add: year_step_def run4_periods run1_growth1 run1_growth_round
      run1_cumulative run1_round_currency run4_round_currency bind_e_simps cong: eval_cong)

lemma run4:
  "calculate_compound_interest reference_libm (Decimal 1000 0) (Decimal 5 (- 2)) 1 2
     (Decimal 5 (- 3)) 1 =
   Inr \<lparr>principal = Decimal 1000 0, final_amount = Decimal 105063 (- 2),
        total_interest = Decimal 5063 (- 2), total_contributions = Decimal 1 (- 2),
        effective_apy = Decimal 506249999999999200639422269887290894985198974609375 (- 52),
        doubling_time = Float 7 1, rate = Decimal 5 (- 2), years = 1, compound_freq = 2,
        contribution = Decimal 5 (- 3), contribution_freq = 1,
        yearly_breakdown =
          [\<lparr>year = 1, balance = Decimal 105063 (- 2), interest_earned = Decimal 5063 (- 2),
            contributions_ytd = Decimal 1 (- 2),
            ytd_growth_pct = Float 5697053528623677 (- 50),
            cumulative_interest = Decimal 5063 (- 2)\<rparr>]\<rparr>"
  by (simp add: calculate_compound_interest_def run1_period_rate run4_years run1_apy
      run1_doubling run1_round_currency run4_round_currency bind_e_simps
      del: year_loop.simps cong: eval_cong)

section \<open>The shape of the result\<close>

lemma year_step_snapshot:
  assumes "year_step pr n c k y v = Inr v'"
  shows "\<exists>p snap.
     period_loop pr n c k [0..n - 1]
        \<lparr>p_balance = y_balance v, p_year_interest = Decimal 0 0,
         p_year_contributions = Decimal 0 0,
         p_total_contributions = y_total_contributions v\<rparr> = Inr p
     \<and> y_yearly_breakdown v' = y_yearly_breakdown v @ [snap]
     \<and> year snap = y
     \<and> y_balance v' = p_balance p
     \<and> y_total_contributions v' = p_total_contributions p
     \<and> dec_add (y_cumulative_interest v) (p_year_interest p) = Inr (y_cumulative_interest v')
     \<and> round_currency (y_balance v') = Inr (balance snap)
     \<and> round_currency (y_cumulative_interest v') = Inr (cumulative_interest snap)"
  using assms unfolding year_step_def Let_def bind_e_Inr by fastforce

lemma year_loop_years:
  "year_loop pr n c k ys v = Inr v' \<Longrightarrow>
     map year (y_yearly_breakdown v') = map year (y_yearly_breakdown v) @ ys"
proof (induction ys arbitrary: v)
  case Nil
  then show ?case by simp
next
  case (Cons y ys)
  from Cons.prems obtain v1 where s: "year_step pr n c k y v = Inr v1"
    and l: "year_loop pr n c k ys v1 = Inr v'"
    by (auto simp: bind_e_Inr)
  from year_step_snapshot[OF s] obtain snap where
    "y_yearly_breakdown v1 = y_yearly_breakdown v @ [snap]" "year snap = y" by blast
  with Cons.IH[OF l] show ?case by simp
qed

lemma year_step_last: "year_step pr n c k y v = Inr v' \<Longrightarrow> last_matches v'"
  by (drule year_step_snapshot) (auto simp: last_matches_def)

lemma year_loop_last:
  "year_loop pr n c k ys v = Inr v' \<Longrightarrow> last_matches v \<or> ys \<noteq> [] \<Longrightarrow> last_matches v'"
proof (induction ys arbitrary: v)
  case Nil
  then show ?case by simp
next
  case (Cons y ys)
  from Cons.prems(1) obtain v1 where s: "year_step pr n c k y v = Inr v1"
    and l: "year_loop pr n c k ys v1 = Inr v'"
    by (auto simp: bind_e_Inr)
  from year_step_last[OF s] Cons.IH[OF l] show ?case by simp
qed

lemma calculate_compound_interest_Inr:
  assumes "calculate_compound_interest L P r Y n c k = Inr res"
  shows "\<exists>pr v. dec_div r (dec_of_int n) = Inr pr
     \<and> year_loop pr n c k [1..Y]
          \<lparr>y_balance = P, y_total_contributions = Decimal 0 0,
           y_cumulative_interest = Decimal 0 0, y_yearly_breakdown = []\<rparr> = Inr v
     \<and> round_currency (y_balance v) = Inr (final_amount res)
     \<and> round_currency (y_cumulative_interest v) = Inr (total_interest res)
     \<and> round_currency (y_total_contributions v) = Inr (total_contributions res)
     \<and> yearly_breakdown res = y_yearly_breakdown v"
  using assms unfolding calculate_compound_interest_def bind_e_Inr by fastforce

text \<open>
  Claim C2.  For years at least 1, whenever \<open>calculate_compound_interest\<close> returns a
  result, its \<open>yearly_breakdown\<close> has exactly \<open>years\<close> snapshots and their \<open>year\<close>
  fields are 1, 2, ..., \<open>years\<close> in this order.  (Nothing is asked of the
  frequencies; if the call raises there is no list.)
\<close>

theorem yearly_breakdown_years:
  assumes "calculate_compound_interest L P r Y n c k = Inr res" and "1 \<le> Y"
  shows "int (length (yearly_breakdown res)) = Y \<and> map year (yearly_breakdown res) = [1..Y]"
proof -
  from calculate_compound_interest_Inr[OF assms(1)] obtain pr v where
    l: "year_loop pr n c k [1..Y]
          \<lparr>y_balance = P, y_total_contributions = Decimal 0 0,
           y_cumulative_interest = Decimal 0 0, y_yearly_breakdown = []\<rparr> = Inr v"
    and b: "yearly_breakdown res = y_yearly_breakdown v" by blast
  from year_loop_years[OF l] b have m: "map year (yearly_breakdown res) = [1..Y]" by simp
  then have "length (yearly_breakdown res) = length [1..Y]" by (metis length_map)
  with assms(2) m show ?thesis by simp
qed

theorem yearly_breakdown_years_witness:
  "(case calculate_compound_interest reference_libm (Decimal 1000 0) (Decimal 5 (- 2)) 2 2
           (Decimal 0 0) 12 of
      Inl e \<Rightarrow> False
    | Inr res \<Rightarrow>
        (1::int) \<le> 2 \<and> int (length (yearly_breakdown res)) = 2 \<and>
        map year (yearly_breakdown res) = [1, 2])"
  using yearly_breakdown_years [OF run1] by (simp add: run1 upto_1_2)

text \<open>
  Claim C3.  For years at least 1, whenever \<open>calculate_compound_interest\<close> returns a
  result, \<open>final_amount\<close> is the \<open>balance\<close> of the last snapshot of \<open>yearly_breakdown\<close>
  and \<open>total_interest\<close> is its \<open>cumulative_interest\<close>.
\<close>

theorem final_amount_is_last_balance:
  assumes "calculate_compound_interest L P r Y n c k = Inr res" and "1 \<le> Y"
  shows "yearly_breakdown res \<noteq> [] \<and>
         final_amount res = balance (last (yearly_breakdown res)) \<and>
         total_interest res = cumulative_interest (last (yearly_breakdown res))"
proof -
  from calculate_compound_interest_Inr[OF assms(1)] obtain pr v where
    l: "year_loop pr n c k [1..Y]
          \<lparr>y_balance = P, y_total_contributions = Decimal 0 0,
           y_cumulative_interest = Decimal 0 0, y_yearly_breakdown = []\<rparr> = Inr v"
    and f: "round_currency (y_balance v) = Inr (final_amount res)"
    and t: "round_currency (y_cumulative_interest v) = Inr (total_interest res)"
    and b: "yearly_breakdown res = y_yearly_breakdown v" by blast
  from assms(2) have "[1..Y] \<noteq> []" by (simp add: upto.simps)
  with year_loop_last[OF l] have "last_matches v" by simp
  with f t b show ?thesis by (simp add: last_matches_def)
qed

theorem final_amount_is_last_balance_witness:
  "(case calculate_compound_interest reference_libm (Decimal 1000 0) (Decimal 5 (- 2)) 2 2
           (Decimal 0 0) 12 of
      Inl e \<Rightarrow> False
    | Inr res \<Rightarrow>
        (1::int) \<le> 2 \<and> final_amount res = balance (last (yearly_breakdown res)) \<and>
        final_amount res = Decimal 110381 (- 2) \<and>
        total_interest res = cumulative_interest (last (yearly_breakdown res)) \<and>
        total_interest res = Decimal 10381 (- 2))"
  using final_amount_is_last_balance [OF run1] by (simp add: run1)

section \<open>The closed form\<close>

lemma dec_val_powi: "dec_val d = of_int (coefficient d) * 10 powi exponent d"
  by (simp add: dec_val_def power_int_def field_simps)













section \<open>The contribution policy\<close>

lemma period_step_cases:
  assumes "period_step pr n c k p v = Inr v'"
  obtains interest b1 where "dec_mul (p_balance v) pr = Inr interest"
    and "dec_add (p_balance v) interest = Inr b1"
    and "\<not> dec_gt_int c 0 \<or> (k \<noteq> 0 \<and> (p + 1) mod (if n div k = 0 then 1 else n div k) \<noteq> 0)"
    and "p_balance v' = b1" and "p_total_contributions v' = p_total_contributions v"
  | interest b1 where "dec_mul (p_balance v) pr = Inr interest"
    and "dec_add (p_balance v) interest = Inr b1"
    and "dec_gt_int c 0" and "k \<noteq> 0" and "(p + 1) mod (if n div k = 0 then 1 else n div k) = 0"
    and "dec_add b1 c = Inr (p_balance v')"
    and "dec_add (p_total_contributions v) c = Inr (p_total_contributions v')"
proof -
  from assms obtain interest b1 yi where
    i: "dec_mul (p_balance v) pr = Inr interest" and b1: "dec_add (p_balance v) interest = Inr b1"
    and rest: "(if dec_gt_int c 0 then
         (if k = 0 then Inl ZeroDivisionError
          else
            if (p + 1) mod (if n div k = 0 then 1 else n div k) = 0 then
                 bind_e (dec_add b1 c) (\<lambda>balance2.
                 bind_e (dec_add (p_year_contributions v) c) (\<lambda>year_contributions1.
                 bind_e (dec_add (p_total_contributions v) c) (\<lambda>total_contributions1.
                   Inr \<lparr>p_balance = balance2, p_year_interest = yi,
                        p_year_contributions = year_contributions1,
                        p_total_contributions = total_contributions1\<rparr>)))
               else Inr (v\<lparr>p_balance := b1, p_year_interest := yi\<rparr>))
       else Inr (v\<lparr>p_balance := b1, p_year_interest := yi\<rparr>)) = Inr v'"
    unfolding period_step_def Let_def bind_e_Inr by blast
  show thesis
  proof (cases "dec_gt_int c 0 \<and> k \<noteq> 0 \<and> (p + 1) mod (if n div k = 0 then 1 else n div k) = 0")
    case True
    with rest have "\<exists>b2 yc tc. dec_add b1 c = Inr b2 \<and> dec_add (p_total_contributions v) c = Inr tc \<and>
       v' = \<lparr>p_balance = b2, p_year_interest = yi, p_year_contributions = yc, p_total_contributions = tc\<rparr>"
      by (auto simp: bind_e_Inr)
    then obtain b2 yc tc where "dec_add b1 c = Inr b2"
      and "dec_add (p_total_contributions v) c = Inr tc"
      and "v' = \<lparr>p_balance = b2, p_year_interest = yi, p_year_contributions = yc, p_total_contributions = tc\<rparr>"
      by blast
    with True show ?thesis by (intro that(2)[OF i b1]) simp_all
  next
    case False
    with rest have v': "v' = v\<lparr>p_balance := b1, p_year_interest := yi\<rparr>"
      and d: "\<not> dec_gt_int c 0 \<or> (k \<noteq> 0 \<and> (p + 1) mod (if n div k = 0 then 1 else n div k) \<noteq> 0)"
      by (auto split: if_splits)
    show ?thesis by (rule that(1)[OF i b1 d]) (simp_all add: v')
  qed
qed

lemma period_step_spec:
  assumes "dec_gt_int c 0" and "1 \<le> n" and "1 \<le> k" and "period_step pr n c k p v = Inr v'"
  shows "spec_period pr (periods_per_contribution n k) c p (p_balance v) = Inr (p_balance v')"
    and "add_times c (if contribution_due (periods_per_contribution n k) p then 1 else 0)
           (p_total_contributions v) = Inr (p_total_contributions v')"
proof -
  from assms(2,3) have q: "0 \<le> n div k" by (simp add: pos_imp_zdiv_nonneg_iff)
  then have ppc: "(if n div k = 0 then 1 else n div k) = periods_per_contribution n k"
    by (auto simp: periods_per_contribution_def)
  have due: "((p + 1) mod periods_per_contribution n k = 0) = contribution_due (periods_per_contribution n k) p"
    by (simp add: contribution_due_def mod_eq_0_iff_dvd)
  from assms(4) show "spec_period pr (periods_per_contribution n k) c p (p_balance v) = Inr (p_balance v')"
    using assms(1,3) by (cases rule: period_step_cases)
     (simp_all add: spec_period_def compound_period_def bind_e_simps ppc due)
  from assms(4) show "add_times c (if contribution_due (periods_per_contribution n k) p then 1 else 0)
           (p_total_contributions v) = Inr (p_total_contributions v')"
    using assms(1,3) by (cases rule: period_step_cases) (simp_all add: bind_e_simps ppc due)
qed

lemma add_times_add: "add_times c (i + j) t = bind_e (add_times c i t) (add_times c j)"
proof (induction i arbitrary: t)
  case 0
  show ?case by (simp add: bind_e_simps)
next
  case (Suc i)
  show ?case by (cases "dec_add t c") (simp_all add: bind_e_simps Suc)
qed

lemma period_loop_spec:
  assumes "dec_gt_int c 0" and "1 \<le> n" and "1 \<le> k"
  shows "period_loop pr n c k ps v = Inr v' \<Longrightarrow>
    spec_periods pr (periods_per_contribution n k) c ps (p_balance v) = Inr (p_balance v') \<and>
    add_times c (length (filter (contribution_due (periods_per_contribution n k)) ps))
      (p_total_contributions v) = Inr (p_total_contributions v')"
proof (induction ps arbitrary: v)
  case Nil
  then show ?case by simp
next
  case (Cons p ps)
  from Cons.prems obtain v1 where s: "period_step pr n c k p v = Inr v1"
    and l: "period_loop pr n c k ps v1 = Inr v'"
    by (auto simp: bind_e_Inr)
  note st = period_step_spec[OF assms s]
  from Cons.IH[OF l] st(1) have "spec_periods pr (periods_per_contribution n k) c (p # ps) (p_balance v) = Inr (p_balance v')"
    by (simp add: bind_e_simps)
  moreover have "add_times c (length (filter (contribution_due (periods_per_contribution n k)) (p # ps)))
      (p_total_contributions v) = Inr (p_total_contributions v')"
  proof (cases "contribution_due (periods_per_contribution n k) p")
    case True
    with st(2) Cons.IH[OF l] show ?thesis
      using add_times_add[of c 1 "length (filter (contribution_due (periods_per_contribution n k)) ps)" "p_total_contributions v"]
      by (simp add: bind_e_simps)
  next
    case False
    with st(2) Cons.IH[OF l] show ?thesis by simp
  qed
  ultimately show ?case by simp
qed

lemma year_loop_spec:
  assumes "dec_gt_int c 0" and "1 \<le> n" and "1 \<le> k"
  shows "year_loop pr n c k ys v = Inr v' \<Longrightarrow>
    spec_years pr (periods_per_contribution n k) c n (length ys) (y_balance v) = Inr (y_balance v') \<and>
    add_times c (length ys * contributions_per_year n (periods_per_contribution n k))
      (y_total_contributions v) = Inr (y_total_contributions v')"
proof (induction ys arbitrary: v)
  case Nil
  then show ?case by simp
next
  case (Cons y ys)
  from Cons.prems obtain v1 where s: "year_step pr n c k y v = Inr v1"
    and l: "year_loop pr n c k ys v1 = Inr v'"
    by (auto simp: bind_e_Inr)
  from year_step_snapshot[OF s] obtain p where
    p: "period_loop pr n c k [0..n - 1]
        \<lparr>p_balance = y_balance v, p_year_interest = Decimal 0 0,
         p_year_contributions = Decimal 0 0,
         p_total_contributions = y_total_contributions v\<rparr> = Inr p"
    and b: "y_balance v1 = p_balance p" and t: "y_total_contributions v1 = p_total_contributions p" by blast
  from period_loop_spec[OF assms p] have
    1: "spec_periods pr (periods_per_contribution n k) c [0..n - 1] (y_balance v) = Inr (y_balance v1)"
    and 2: "add_times c (contributions_per_year n (periods_per_contribution n k)) (y_total_contributions v) = Inr (y_total_contributions v1)"
    by (simp_all add: b t contributions_per_year_def)
  from Cons.IH[OF l] 1 2 show ?case
    by (simp add: bind_e_simps add_times_add)
qed

lemma digits_loop_le:
  "0 < p \<Longrightarrow> n < p * 10 ^ j \<Longrightarrow> digits_loop p k n \<le> k + int j"
proof (induction j arbitrary: p k)
  case 0
  then show ?case by (subst digits_loop.simps) simp
next
  case (Suc j)
  show ?case
  proof (cases "n < p")
    case True
    then show ?thesis by (subst digits_loop.simps) simp
  next
    case False
    from Suc.prems have "digits_loop (10 * p) (k + 1) n \<le> k + 1 + int j"
      by (intro Suc.IH) (simp_all add: mult.assoc)
    with False Suc.prems(1) show ?thesis by (subst digits_loop.simps) simp
  qed
qed

lemma ndigits_le: "n < 10 ^ j \<Longrightarrow> 0 < j \<Longrightarrow> ndigits n \<le> int j"
  using digits_loop_le[of 10 n "j - 1" 1] by (cases j) (simp_all add: ndigits_def)

lemma dec_fix_exact:
  assumes "\<bar>S\<bar> < 10 ^ 28" and "- 2 \<le> e" and "e \<le> 0"
  shows "dec_fix (Decimal S e) = Inr (Decimal S e)"
proof (cases "S = 0")
  case True
  with assms show ?thesis by (simp add: dec_fix_def Etiny_def Emin_def Emax_def prec_def)
next
  case False
  from assms(1) have "ndigits \<bar>S\<bar> \<le> 28" using ndigits_le[of "\<bar>S\<bar>" 28] by simp
  with False assms(2,3) show ?thesis
    by (simp add: dec_fix_def Let_def Etiny_def Etop_def Emin_def Emax_def prec_def max_def)
qed

lemma dec_add_exact:
  assumes "- 2 \<le> exponent a" and "exponent a \<le> 0" and "- 2 \<le> exponent b"
    and "0 \<le> dec_val a" and "0 \<le> dec_val b" and "dec_val a + dec_val b < 10 ^ 26"
  shows "\<exists>d. dec_add a b = Inr d \<and> dec_val d = dec_val a + dec_val b \<and>
           - 2 \<le> exponent d \<and> exponent d \<le> 0"
proof -
  define e where "e = min (exponent a) (exponent b)"
  define S where "S = coefficient a * 10 ^ nat (exponent a - e) + coefficient b * 10 ^ nat (exponent b - e)"
  have e: "- 2 \<le> e" "e \<le> 0" "e \<le> exponent a" "e \<le> exponent b" using assms(1-3) by (auto simp: e_def)
  have pa: "(10::rat) powi exponent a = 10 ^ nat (exponent a - e) * 10 powi e"
    using e by (simp add: power_int_add[symmetric] flip: power_int_of_nat)
  have pb: "(10::rat) powi exponent b = 10 ^ nat (exponent b - e) * 10 powi e"
    using e by (simp add: power_int_add[symmetric] flip: power_int_of_nat)
  have val: "of_int S * 10 powi e = dec_val a + dec_val b"
    by (simp add: S_def dec_val_powi pa pb algebra_simps)
  have "0 \<le> (of_int S :: rat) * 10 powi e" using assms(4,5) val by simp
  moreover have pe: "(0::rat) < 10 powi e" by simp
  ultimately have S0: "0 \<le> S" by (simp add: zero_le_mult_iff)
  have "(of_int S :: rat) * 10 powi e < 10 ^ 26" using assms(6) val by simp
  moreover have "(10::rat) powi (- 2) \<le> 10 powi e" using e by (intro power_int_increasing) simp_all
  moreover have "(of_int S :: rat) * 10 powi (- 2) \<le> of_int S * 10 powi e"
    using S0 \<open>(10::rat) powi (- 2) \<le> 10 powi e\<close> by (intro mult_left_mono) simp_all
  ultimately have "(of_int S :: rat) * 10 powi (- 2) < 10 ^ 26" by linarith
  then have "(of_int S :: rat) < of_int (10 ^ 28)" by (simp add: power_int_minus field_simps)
  then have "S < 10 ^ 28" by (simp only: of_int_less_iff)
  with S0 e have "dec_fix (Decimal S e) = Inr (Decimal S e)" by (intro dec_fix_exact) simp_all
  then have "dec_add a b = Inr (Decimal S e)" by (simp add: dec_add_def Let_def S_def e_def)
  with val e show ?thesis by (simp add: dec_val_powi)
qed


lemma dec_gt_int_nonneg:
  assumes "dec_gt_int c 0"
  shows "0 \<le> dec_val c"
proof -
  from assms have "0 < coefficient c"
    by (auto simp: dec_gt_int_def zero_less_mult_iff split: if_splits)
  then show ?thesis by (simp add: dec_val_powi)
qed

lemma add_times_exact:
  assumes "0 \<le> dec_val c" and "- 2 \<le> exponent c"
  shows "- 2 \<le> exponent t \<Longrightarrow> exponent t \<le> 0 \<Longrightarrow> 0 \<le> dec_val t \<Longrightarrow>
     dec_val t + of_nat m * dec_val c < 10 ^ 26 \<Longrightarrow>
     \<exists>t'. add_times c m t = Inr t' \<and> dec_val t' = dec_val t + of_nat m * dec_val c \<and>
          - 2 \<le> exponent t'"
proof (induction m arbitrary: t)
  case 0
  then show ?case by simp
next
  case (Suc m)
  have "dec_val t + dec_val c \<le> dec_val t + of_nat (Suc m) * dec_val c"
    using assms(1) by (simp add: algebra_simps mult_nonneg_nonneg)
  with Suc.prems have "dec_val t + dec_val c < 10 ^ 26" by linarith
  from dec_add_exact[OF Suc.prems(1,2) assms(2) Suc.prems(3) assms(1) this]
  obtain d where d: "dec_add t c = Inr d" "dec_val d = dec_val t + dec_val c"
    "- 2 \<le> exponent d" "exponent d \<le> 0" by blast
  have "0 \<le> dec_val d" using d(2) Suc.prems(3) assms(1) by simp
  moreover have "dec_val d + of_nat m * dec_val c < 10 ^ 26"
    using Suc.prems(4) d(2) by (simp add: algebra_simps)
  ultimately obtain t' where "add_times c m d = Inr t'"
    "dec_val t' = dec_val d + of_nat m * dec_val c" "- 2 \<le> exponent t'"
    using Suc.IH[OF d(3,4)] by blast
  with d show ?case by (simp add: bind_e_simps algebra_simps)
qed

lemma round_currency_exact:
  assumes "round_currency d = Inr q" and "- 2 \<le> exponent d"
  shows "dec_val q = dec_val d"
proof (cases "coefficient d = 0")
  case True
  with assms have "q = Decimal 0 (- 2)"
    by (auto simp: round_currency_def quantize_half_up_def Let_def dec_fix_def
        Etiny_def Emin_def Emax_def prec_def)
  with True show ?thesis by (simp add: dec_val_def)
next
  case False
  define c where "c = coefficient d"
  define e where "e = exponent d"
  define m where "m = \<bar>c\<bar> * 10 ^ nat (e + 2)"
  have m0: "0 \<le> m" by (simp add: m_def)
  from assms False have nd: "ndigits m \<le> prec"
    and fx: "dec_fix (Decimal (with_sign c m) (- 2)) = Inr q"
    by (auto simp: round_currency_def quantize_half_up_def Let_def c_def e_def m_def
        split: if_splits)
  from m0 have "\<bar>with_sign c m\<bar> = m" by (simp add: with_sign_def)
  with nd fx have q: "q = Decimal (with_sign c m) (- 2)"
    by (auto simp: dec_fix_def Let_def Etiny_def Etop_def Emin_def Emax_def prec_def max_def
        split: if_splits)
  have "of_int (with_sign c m) = (of_int c :: rat) * 10 ^ nat (e + 2)"
    by (simp add: with_sign_def m_def)
  moreover have "(10::rat) ^ nat (e + 2) = 10 powi e * 100"
  proof -
    have "(10::rat) powi (e + 2) = 10 powi e * 10 powi 2" by (rule power_int_add) simp
    moreover have "(10::rat) powi (e + 2) = 10 ^ nat (e + 2)"
      using assms(2) by (simp add: power_int_def e_def)
    ultimately show ?thesis by simp
  qed
  moreover have "dec_val q = of_int (with_sign c m) / 100" by (simp add: q dec_val_def)
  moreover have "dec_val d = of_int c * 10 powi e" by (simp add: dec_val_powi c_def e_def)
  ultimately show ?thesis by simp
qed

lemma div_succ:
  fixes a m :: int
  assumes "1 \<le> m"
  shows "(a + 1) div m = a div m + (if m dvd a + 1 then 1 else 0)"
proof (cases "m dvd a + 1")
  case True
  then obtain q where q: "a + 1 = m * q" by (auto simp: dvd_def)
  then have "a = m * (q - 1) + (m - 1)" by (simp add: algebra_simps)
  with assms have "a div m = q - 1" using int_div_pos_eq[of a m "q - 1" "m - 1"] by simp
  moreover from q assms have "(a + 1) div m = q" by simp
  ultimately show ?thesis using True by simp
next
  case False
  define r where "r = (a + 1) mod m"
  define q where "q = (a + 1) div m"
  have "r \<noteq> 0" using False by (simp add: r_def mod_eq_0_iff_dvd)
  moreover have "0 \<le> r" "r < m" using assms by (simp_all add: r_def)
  moreover have "a + 1 = m * q + r" by (simp add: q_def r_def)
  ultimately have "a = m * q + (r - 1)" "0 \<le> r - 1" "r - 1 < m" by simp_all
  then have "a div m = q" by (rule int_div_pos_eq)
  with False show ?thesis by (simp add: q_def)
qed

lemma contributions_count:
  assumes "1 \<le> m"
  shows "length (filter (contribution_due m) [0..int j - 1]) = nat (int j div m)"
proof (induction j)
  case 0
  show ?case by simp
next
  case (Suc j)
  have "[0..int (Suc j) - 1] = [0..int j - 1] @ [int j]"
    using upto_rec2[of 0 "int j"] by simp
  moreover have "0 \<le> int j div m" using assms by (simp add: pos_imp_zdiv_nonneg_iff)
  ultimately show ?case
    using Suc div_succ[OF assms, of "int j"]
    by (simp add: contribution_due_def nat_add_distrib add.commute)
qed

lemma contributions_per_year_eq:
  "1 \<le> ppc \<Longrightarrow> 0 \<le> n \<Longrightarrow> contributions_per_year n ppc = nat (n div ppc)"
  using contributions_count[of ppc "nat n"] by (simp add: contributions_per_year_def)

lemma periods_per_contribution_eq:
  "1 \<le> n \<Longrightarrow> 1 \<le> k \<Longrightarrow>
     periods_per_contribution n k = (if n < k then 1 else n div k)"
proof (cases "n < k")
  case True
  assume "1 \<le> n"
  with True show ?thesis by (simp add: periods_per_contribution_def div_pos_pos_trivial)
next
  case False
  assume "1 \<le> k"
  with False have "0 < n div k" by (simp add: pos_imp_zdiv_pos_iff)
  with False show ?thesis by (simp add: periods_per_contribution_def)
qed


text \<open>
  Claim C4, as stated, at a contribution of half a cent: 1000 at 5 %, one year,
  compounded twice, one contribution a year.  One contribution of 0.005 is made (at the
  end of the second period), but \<open>total_contributions\<close> is 0.01, not 1 * 0.005: the
  field is rounded to cents.
\<close>

theorem total_contributions_counterexample:
  "dec_gt_int (Decimal 5 (- 3)) 0 \<and>
   map_sum id total_contributions
     (calculate_compound_interest reference_libm (Decimal 1000 0) (Decimal 5 (- 2)) 1 2
        (Decimal 5 (- 3)) 1) = Inr (Decimal 1 (- 2)) \<and>
   nat 1 * contributions_per_year 2 (periods_per_contribution 2 1) = 1 \<and>
   dec_val (Decimal 1 (- 2)) \<noteq> 1 * dec_val (Decimal 5 (- 3))"
  by (simp add: run4 dec_gt_int_def dec_val_def contributions_per_year_def
      periods_per_contribution_def contribution_due_def upto.simps)

text \<open>
  Claim C4, amended.  For years and both frequencies at least 1 and a positive
  contribution, whenever \<open>calculate_compound_interest\<close> returns a result: the balance
  behind \<open>final_amount\<close> is the one obtained by compounding every period and adding one
  contribution at the end of exactly the periods whose 1-based index within the year
  is divisible by \<open>periods_per_contribution = max(1, compound_freq // contribution_freq)\<close>,
  which is 1 (every period) when \<open>contribution_freq > compound_freq\<close>; there are
  \<open>compound_freq // periods_per_contribution\<close> such periods a year; and
  \<open>total_contributions\<close> is the contribution added that many times per year over all
  years in \<open>Decimal\<close> arithmetic, rounded half up to cents.  It equals the number of
  contributions times the amount when the amount is a whole number of cents and the
  product is below \<open>10 ^ 26\<close>.
\<close>

theorem contribution_policy:
  assumes "calculate_compound_interest L P r Y n c k = Inr res"
    and "dec_gt_int c 0" and "1 \<le> Y" and "1 \<le> n" and "1 \<le> k"
  shows "(\<exists>pr b t.
           dec_div r (dec_of_int n) = Inr pr \<and>
           spec_years pr (periods_per_contribution n k) c n (nat Y) P = Inr b \<and>
           round_currency b = Inr (final_amount res) \<and>
           add_times c (nat Y * contributions_per_year n (periods_per_contribution n k))
             (Decimal 0 0) = Inr t \<and>
           round_currency t = Inr (total_contributions res)) \<and>
         periods_per_contribution n k = (if n < k then 1 else n div k) \<and>
         contributions_per_year n (periods_per_contribution n k) =
           nat (n div periods_per_contribution n k) \<and>
         (- 2 \<le> exponent c \<and>
          of_nat (nat Y * contributions_per_year n (periods_per_contribution n k)) * dec_val c
            < 10 ^ 26 \<longrightarrow>
          dec_val (total_contributions res) =
            of_nat (nat Y * contributions_per_year n (periods_per_contribution n k)) * dec_val c)"
proof -
  define ppc where "ppc = periods_per_contribution n k"
  define m where "m = nat Y * contributions_per_year n ppc"
  from calculate_compound_interest_Inr[OF assms(1)] obtain pr v where
    pr: "dec_div r (dec_of_int n) = Inr pr" and
    l: "year_loop pr n c k [1..Y]
          \<lparr>y_balance = P, y_total_contributions = Decimal 0 0,
           y_cumulative_interest = Decimal 0 0, y_yearly_breakdown = []\<rparr> = Inr v"
    and f: "round_currency (y_balance v) = Inr (final_amount res)"
    and t: "round_currency (y_total_contributions v) = Inr (total_contributions res)" by blast
  from assms(3) have len: "length [1..Y] = nat Y" by simp
  from year_loop_spec[OF assms(2,4,5) l] have
    b: "spec_years pr ppc c n (nat Y) P = Inr (y_balance v)" and
    a: "add_times c m (Decimal 0 0) = Inr (y_total_contributions v)"
    by (simp_all add: len ppc_def m_def)
  have one: "1 \<le> ppc" by (simp add: ppc_def periods_per_contribution_def)
  have exact: "dec_val (total_contributions res) = of_nat m * dec_val c"
    if "- 2 \<le> exponent c" and "of_nat m * dec_val c < 10 ^ 26"
  proof -
    from assms(2) have "0 \<le> dec_val c" by (rule dec_gt_int_nonneg)
    from add_times_exact[OF this that(1), of "Decimal 0 0" m] that(2) a
    have "dec_val (y_total_contributions v) = of_nat m * dec_val c"
      and "- 2 \<le> exponent (y_total_contributions v)"
      by (auto simp: dec_val_def)
    with round_currency_exact[OF t] show ?thesis by simp
  qed
  from pr b f a t have "\<exists>pr b t.
           dec_div r (dec_of_int n) = Inr pr \<and>
           spec_years pr ppc c n (nat Y) P = Inr b \<and>
           round_currency b = Inr (final_amount res) \<and>
           add_times c m (Decimal 0 0) = Inr t \<and>
           round_currency t = Inr (total_contributions res)" by blast
  moreover note periods_per_contribution_eq[OF assms(4,5)]
  moreover from contributions_per_year_eq[OF one] assms(4)
  have "contributions_per_year n ppc = nat (n div ppc)" by simp
  ultimately show ?thesis using exact unfolding ppc_def m_def by blast
qed

theorem contribution_policy_witness:
  "dec_gt_int (Decimal 50 0) 0 \<and> (1::int) \<le> 2 \<and> (1::int) \<le> 1 \<and>
   periods_per_contribution 2 1 = 2 \<and>
   contributions_per_year 2 (periods_per_contribution 2 1) = 1 \<and>
   (\<exists>pr b t.
      dec_div (Decimal 5 (- 2)) (dec_of_int 2) = Inr pr \<and>
      spec_years pr 2 (Decimal 50 0) 2 2 (Decimal 1000 0) = Inr b \<and>
      round_currency b = Inr (Decimal 120634 (- 2)) \<and>
      add_times (Decimal 50 0) 2 (Decimal 0 0) = Inr t \<and>
      round_currency t = Inr (Decimal 10000 (- 2))) \<and>
   - 2 \<le> exponent (Decimal 50 0) \<and> 2 * dec_val (Decimal 50 0) < 10 ^ 26 \<and>
   dec_val (Decimal 10000 (- 2)) = 2 * dec_val (Decimal 50 0)"
proof -
  have g: "dec_gt_int (Decimal 50 0) 0" by (simp add: dec_gt_int_def)
  have p: "periods_per_contribution 2 1 = 2" by (simp add: periods_per_contribution_def)
  have c: "contributions_per_year 2 2 = 1"
    by (simp add: contributions_per_year_def contribution_due_def upto.simps)
  from contribution_policy [OF run3 g] show ?thesis
    by (simp add: g p c dec_val_def)
qed

end
